theory Spec2Isabelle
  imports Complex_Main
begin

section \<open>Shared vocabulary: exceptions and log records\<close>

text \<open>
  The miner is Python. Every exception that the modelled code can raise is a value of
  \<open>py_error\<close>; a computation that may raise returns \<open>py_error + 'a\<close> with \<open>Inl\<close> for
  the raise. \<open>UpstreamError\<close> stands for whatever an upstream SDK call or stream raises.
\<close>

datatype py_error =
    IndexError
  | KeyError
  | ValueError
  | TypeError
  | AttributeError
  | UnboundLocalError
  | NameError
  | UpstreamError string

text \<open>
  The reason strings of \<open>base_blacklist\<close> are f-strings; a reason is kept as the template
  that was used together with the values substituted into it, in the order of the source.
\<close>

datatype reason =
    Blacklisted_non_registered string string
  | Blacklisted_low_stake string real real string
  | Request_frequency_exceeded string nat real int
  | Accepting_request string string

text \<open>What \<open>bt.logging\<close> is called with, one constructor per call site.\<close>

datatype log_entry =
    Error_in_blacklist py_error
  | Info_blacklist reason
  | Streamed_tokens string
  | Streamed_text string
  | Unknown_provider string
  | Error_in_prompt py_error
  | Skipped_an_empty_batch
  | Error_in_processing_batch py_error

section \<open>Admission: \<open>StreamMiner.base_blacklist\<close>\<close>

text \<open>
  The constants of the \<open>cortext\<close> package are not part of the sources at hand; they are
  parameters of the model.
\<close>

record cortext_consts =
  ALLOW_NON_REGISTERED :: bool
  MIN_REQUEST_PERIOD :: real
  MAX_REQUESTS :: int
  PROMPT_BLACKLIST_STAKE :: real
  ISALIVE_BLACKLIST_STAKE :: real
  IMAGE_BLACKLIST_STAKE :: real
  EMBEDDING_BLACKLIST_STAKE :: real

text \<open>
  The metagraph as \<open>base_blacklist\<close> reads it: the hotkey of every axon, the list
  \<open>hotkeys\<close> and the stake vector \<open>S\<close>.
\<close>

record metagraph =
  mg_axons :: "string list"
  mg_hotkeys :: "string list"
  mg_S :: "real list"

text \<open>
  Of a synapse, admission reads \<open>synapse.dendrite.hotkey\<close> and the name of its class.
  \<open>dendrite = None\<close> is a synapse without dendrite information, on which the attribute
  access raises.
\<close>

record synapse_header =
  dendrite :: "string option"
  synapse_type :: string

text \<open>The \<open>for _uid, _axon in enumerate(...)\<close> loop with its \<open>break\<close>.\<close>

fun find_uid :: "string list \<Rightarrow> string \<Rightarrow> nat \<Rightarrow> nat option" where
  "find_uid [] hotkey i = None"
| "find_uid (a # as) hotkey i = (if a = hotkey then Some i else find_uid as hotkey (Suc i))"

text \<open>\<open>list.index\<close>: the first position of the value, \<open>ValueError\<close> when it is absent.\<close>

fun py_index :: "'a list \<Rightarrow> 'a \<Rightarrow> nat \<Rightarrow> py_error + nat" where
  "py_index [] x i = Inl ValueError"
| "py_index (y # ys) x i = (if y = x then Inr i else py_index ys x (Suc i))"

text \<open>Subscripting with a non-negative index.\<close>

definition py_get :: "'a list \<Rightarrow> nat \<Rightarrow> py_error + 'a" where
  "py_get xs i = (if i < length xs then Inr (xs ! i) else Inl IndexError)"

text \<open>
  The pruning loop
  \<^verbatim>\<open>while dq and current_time - dq[0] > time_window: dq.popleft()\<close>
  on the deque of one hotkey, oldest entry first.
\<close>

fun prune_timestamps :: "real \<Rightarrow> real \<Rightarrow> real list \<Rightarrow> real list" where
  "prune_timestamps current_time time_window [] = []"
| "prune_timestamps current_time time_window (t # ts) =
     (if current_time - t > time_window then prune_timestamps current_time time_window ts
      else t # ts)"

type_synonym request_timestamps = "string \<rightharpoonup> real list"

text \<open>
  The body of the \<open>try\<close> block. It returns what the block returns or raises, together with
  the dictionary \<open>self.request_timestamps\<close> as the block leaves it. \<open>current_time\<close> is the
  reading of \<open>time.time()\<close>.
\<close>

definition base_blacklist_body ::
  "cortext_consts \<Rightarrow> metagraph \<Rightarrow> real \<Rightarrow> request_timestamps \<Rightarrow> synapse_header \<Rightarrow> real
     \<Rightarrow> (py_error + bool \<times> reason) \<times> request_timestamps" where
  "base_blacklist_body cortext mg current_time rts synapse blacklist_amt =
     (case dendrite synapse of
        None \<Rightarrow> (Inl AttributeError, rts)
      | Some hotkey \<Rightarrow>
          let uid = find_uid (mg_axons mg) hotkey 0 in
          if uid = None \<and> ALLOW_NON_REGISTERED cortext = False
          then (Inr (True, Blacklisted_non_registered (synapse_type synapse) hotkey), rts)
          else
            (case py_index (mg_hotkeys mg) hotkey 0 of
               Inl e \<Rightarrow> (Inl e, rts)
             | Inr i \<Rightarrow>
                 (case py_get (mg_S mg) i of
                    Inl e \<Rightarrow> (Inl e, rts)
                  | Inr stake \<Rightarrow>
                      if stake < blacklist_amt
                      then (Inr (True, Blacklisted_low_stake (synapse_type synapse) stake
                                         blacklist_amt hotkey), rts)
                      else
                        let time_window = MIN_REQUEST_PERIOD cortext * 60;
                            dq0 = (case rts hotkey of None \<Rightarrow> [] | Some dq \<Rightarrow> dq);
                            dq = prune_timestamps current_time time_window dq0
                        in
                          if int (length dq) \<ge> MAX_REQUESTS cortext
                          then (Inr (True, Request_frequency_exceeded hotkey (length dq)
                                             (MIN_REQUEST_PERIOD cortext) (MAX_REQUESTS cortext)),
                                rts(hotkey \<mapsto> dq))
                          else (Inr (False, Accepting_request (synapse_type synapse) hotkey),
                                rts(hotkey \<mapsto> dq @ [current_time])))))"

text \<open>
  \<open>base_blacklist\<close> itself: the \<open>except Exception\<close> handler logs and then falls off the end
  of the function, so the call returns Python's \<open>None\<close> (here \<open>None\<close>); otherwise it
  returns the pair \<open>Some (blacklisted, reason)\<close>. The third component is what was logged.
\<close>

definition base_blacklist ::
  "cortext_consts \<Rightarrow> metagraph \<Rightarrow> real \<Rightarrow> request_timestamps \<Rightarrow> synapse_header \<Rightarrow> real
     \<Rightarrow> (bool \<times> reason) option \<times> request_timestamps \<times> log_entry list" where
  "base_blacklist cortext mg current_time rts synapse blacklist_amt =
     (case base_blacklist_body cortext mg current_time rts synapse blacklist_amt of
        (Inr decision, rts') \<Rightarrow> (Some decision, rts', [])
      | (Inl e, rts') \<Rightarrow> (None, rts', [Error_in_blacklist e]))"

text \<open>
  \<open>blacklist_prompt\<close>, the function the axon calls for a streaming completion: it
  subscripts the value returned by \<open>base_blacklist\<close> with \<open>[1]\<close> to log the reason, which
  raises \<open>TypeError\<close> on \<open>None\<close>; nothing catches it.
\<close>

definition blacklist_prompt ::
  "cortext_consts \<Rightarrow> metagraph \<Rightarrow> real \<Rightarrow> request_timestamps \<Rightarrow> synapse_header
     \<Rightarrow> (py_error + bool \<times> reason) \<times> request_timestamps \<times> log_entry list" where
  "blacklist_prompt cortext mg current_time rts synapse =
     (case base_blacklist cortext mg current_time rts synapse (PROMPT_BLACKLIST_STAKE cortext) of
        (None, rts', lg) \<Rightarrow> (Inl TypeError, rts', lg)
      | (Some blacklist, rts', lg) \<Rightarrow> (Inr blacklist, rts', lg @ [Info_blacklist (snd blacklist)]))"

section \<open>Embeddings: \<open>get_embeddings_in_batch\<close>\<close>

text \<open>
  Texts are Python strings; a \<open>char\<close> stands for a code point below 256. \<open>is_space\<close> is
  \<open>str.isspace\<close> on these code points, \<open>py_strip\<close> is \<open>str.strip()\<close>.
\<close>

definition is_space :: "char \<Rightarrow> bool" where
  "is_space c = ((of_char c :: nat) \<in> {9, 10, 11, 12, 13, 28, 29, 30, 31, 32, 133, 160})"

definition py_strip :: "string \<Rightarrow> string" where
  "py_strip text = rev (dropWhile is_space (rev (dropWhile is_space text)))"

text \<open>\<open>range(0, stop, step)\<close> for a positive step, and the slice \<open>xs[i:j]\<close> for \<open>i \<le> j\<close>.\<close>

definition py_range_step :: "nat \<Rightarrow> nat \<Rightarrow> nat list" where
  "py_range_step stop step = map (\<lambda>k. k * step) [0 ..< (stop + step - 1) div step]"

definition py_slice :: "'a list \<Rightarrow> nat \<Rightarrow> nat \<Rightarrow> 'a list" where
  "py_slice xs i j = take (j - i) (drop i xs)"

text \<open>
  The list comprehension that builds \<open>batches\<close>. \<open>range\<close> raises \<open>ValueError\<close> on a zero
  step and is empty on a negative one.
\<close>

definition make_batches :: "string list \<Rightarrow> int \<Rightarrow> py_error + string list list" where
  "make_batches texts batch_size =
     (if batch_size = 0 then Inl ValueError
      else if batch_size < 0 then Inr []
      else Inr (map (\<lambda>i. py_slice texts i (i + nat batch_size))
                    (py_range_step (length texts) (nat batch_size))))"

text \<open>
  The loop over \<open>batches\<close>: a task is created for the filtered batch when it is not empty.
  A task is represented by the input it was created with.
\<close>

fun make_tasks :: "string list list \<Rightarrow> string list list \<Rightarrow> log_entry list
                     \<Rightarrow> string list list \<times> log_entry list" where
  "make_tasks [] tasks lg = (tasks, lg)"
| "make_tasks (batch # batches) tasks lg =
     (let filtered_batch = filter (\<lambda>text. py_strip text \<noteq> []) batch in
      if filtered_batch \<noteq> [] then make_tasks batches (tasks @ [filtered_batch]) lg
      else make_tasks batches tasks (lg @ [Skipped_an_empty_batch]))"

text \<open>
  The loop over the gathered \<open>results\<close>: an exception is logged, the embeddings of any
  other result extend \<open>all_embeddings\<close>.
\<close>

fun collect_results :: "(py_error + 'v list) list \<Rightarrow> 'v list \<Rightarrow> log_entry list
                          \<Rightarrow> 'v list \<times> log_entry list" where
  "collect_results [] all_embeddings lg = (all_embeddings, lg)"
| "collect_results (result # results) all_embeddings lg =
     (case result of
        Inl e \<Rightarrow> collect_results results all_embeddings (lg @ [Error_in_processing_batch e])
      | Inr batch_embeddings \<Rightarrow> collect_results results (all_embeddings @ batch_embeddings) lg)"

text \<open>
  \<open>create model input\<close> is the outcome of one \<open>openai_client.embeddings.create\<close> call as
  \<open>asyncio.gather(..., return_exceptions=True)\<close> reports it: the exception, or the list
  \<open>[item.embedding for item in result.data]\<close>.
\<close>

definition issued_batches :: "string list \<Rightarrow> int \<Rightarrow> py_error + string list list" where
  "issued_batches texts batch_size =
     (case make_batches texts batch_size of
        Inl e \<Rightarrow> Inl e
      | Inr batches \<Rightarrow> Inr (fst (make_tasks batches [] [])))"

definition get_embeddings_in_batch ::
  "(string \<Rightarrow> string list \<Rightarrow> py_error + 'v list) \<Rightarrow> string list \<Rightarrow> string \<Rightarrow> int
     \<Rightarrow> (py_error + 'v list) \<times> log_entry list" where
  "get_embeddings_in_batch create texts model_name batch_size =
     (case make_batches texts batch_size of
        Inl e \<Rightarrow> (Inl e, [])
      | Inr batches \<Rightarrow>
          (case make_tasks batches [] [] of
             (tasks, lg) \<Rightarrow>
               let results = map (create model_name) tasks in
               (case collect_results results [] lg of
                  (all_embeddings, lg') \<Rightarrow> (Inr all_embeddings, lg'))))"

section \<open>Streaming completions: \<open>StreamMiner.prompt\<close>\<close>

subsection \<open>Requests and messages\<close>

text \<open>
  A chat message is a dictionary from strings to strings; the code reads the keys
  \<open>role\<close>, \<open>content\<close> and \<open>image\<close>. \<open>None\<close> is an absent key.
\<close>

record message =
  msg_role :: "string option"
  msg_content :: "string option"
  msg_image :: "string option"

record synapse =
  provider :: string
  model :: string
  messages :: "message list"
  seed :: int
  temperature :: real
  max_tokens :: int
  top_p :: real
  top_k :: int

text \<open>Truth value of \<open>d.get(key)\<close> for a string-valued dictionary.\<close>

definition truthy :: "string option \<Rightarrow> bool" where
  "truthy v = (case v of None \<Rightarrow> False | Some s \<Rightarrow> s \<noteq> [])"

text \<open>\<open>v or ""\<close> for a value that is a string or \<open>None\<close>.\<close>

definition or_empty :: "string option \<Rightarrow> string" where
  "or_empty v = (case v of None \<Rightarrow> [] | Some s \<Rightarrow> s)"

datatype claude_block = Claude_image string | Claude_text string

datatype openai_block = OpenAI_text string | OpenAI_image_url string

type_synonym claude_message = "string \<times> claude_block list"

type_synonym openai_message = "string \<times> openai_block list"

text \<open>
  \<open>generate_messages_to_claude\<close>. \<open>fetch url\<close> is
  \<^verbatim>\<open>base64.b64encode(httpx.get(url).content).decode("utf-8")\<close>, which may raise.
  \<open>message_to_append\<close> is the dictionary of that name, built in the \<open>else\<close> branch of the
  loop body: the role, then the image block and the text block when the message has them.
\<close>

definition message_to_append ::
  "(string \<Rightarrow> py_error + string) \<Rightarrow> message \<Rightarrow> py_error + claude_message" where
  "message_to_append fetch m =
     (case msg_role m of
        None \<Rightarrow> Inl KeyError
      | Some r \<Rightarrow>
          (case (if truthy (msg_image m)
                 then (case fetch (or_empty (msg_image m)) of
                         Inl e \<Rightarrow> Inl e
                       | Inr image_data \<Rightarrow> Inr [Claude_image image_data])
                 else Inr []) of
             Inl e \<Rightarrow> Inl e
           | Inr image_blocks \<Rightarrow>
               Inr (r, image_blocks
                       @ (if truthy (msg_content m)
                          then [Claude_text (or_empty (msg_content m))] else []))))"

text \<open>The loop over \<open>messages\<close>; it carries \<open>system_prompt\<close> and \<open>filtered_messages\<close>.\<close>

fun claude_loop :: "(string \<Rightarrow> py_error + string) \<Rightarrow> message list \<Rightarrow> string option
                      \<Rightarrow> claude_message list \<Rightarrow> py_error + claude_message list \<times> string option" where
  "claude_loop fetch [] system_prompt filtered_messages = Inr (filtered_messages, system_prompt)"
| "claude_loop fetch (m # ms) system_prompt filtered_messages =
     (case msg_role m of
        None \<Rightarrow> Inl KeyError
      | Some r \<Rightarrow>
          if r = ''system'' then
            (case msg_content m of
               None \<Rightarrow> Inl KeyError
             | Some c \<Rightarrow> claude_loop fetch ms (Some c) filtered_messages)
          else
            (case message_to_append fetch m of
               Inl e \<Rightarrow> Inl e
             | Inr appended \<Rightarrow>
                 claude_loop fetch ms system_prompt (filtered_messages @ [appended])))"

definition generate_messages_to_claude ::
  "(string \<Rightarrow> py_error + string) \<Rightarrow> message list
     \<Rightarrow> py_error + claude_message list \<times> string option" where
  "generate_messages_to_claude fetch msgs = claude_loop fetch msgs None []"

subsection \<open>Upstream clients and the sink\<close>

text \<open>
  What an upstream stream yields when the miner iterates over it: a finite sequence of
  chunks that either runs out or raises. A raise while the next chunk is read or decoded
  is a \<open>Raises\<close> at that position.
\<close>

datatype 'a chunks = End_of_stream | Raises py_error | Chunk 'a "'a chunks"

datatype openai_request = OpenAI_request string "openai_message list" real int int

datatype anthropic_bedrock_request =
  AnthropicBedrock_request "message list" int real int real string

datatype anthropic_request = Anthropic_request int "claude_message list" string "string option"

datatype gemini_request = Gemini_request string "message list" real real int

datatype groq_request = Groq_request "message list" string real int real int

datatype native_request =
    Cohere_request string real int real int
  | Meta_request string real int real
  | Claude_request "claude_message list" real int real "string option"
  | Mistral_request string real int
  | Amazon_request string int real real
  | Ai21_request string int real real

text \<open>
  A chunk of the generative-content provider: the number of parts of its first candidate
  and the value of \<open>chunk.text\<close>, whose evaluation may raise.
\<close>

datatype gemini_chunk = Gemini_chunk nat "py_error + string"

text \<open>
  A decoded event of the Bedrock response stream, with the keys \<open>extract_token\<close> reads:
  \<open>text\<close>, \<open>generation\<close>, \<open>type\<close>, \<open>delta.type\<close>, \<open>delta.text\<close>, the \<open>text\<close> of every entry
  of \<open>outputs\<close>, and \<open>outputText\<close>.
\<close>

record bedrock_chunk =
  bc_text :: "string option"
  bc_generation :: "string option"
  bc_type :: "string option"
  bc_delta_type :: "string option"
  bc_delta_text :: "string option"
  bc_outputs :: "string option list option"
  bc_outputText :: "string option"

text \<open>
  The SDK clients and \<open>httpx\<close>, as functions from the arguments of a call to its outcome.
  The streams carry what the loops read from a chunk: \<open>chunk.choices[0].delta.content\<close>
  for the OpenAI and Groq clients, \<open>completion.completion\<close> for AnthropicBedrock, the text
  for Anthropic. \<open>bedrock_invoke_model\<close> gives the text that \<open>extract_token\<close> reads from the
  body of the one-shot \<open>ai21\<close> response.
\<close>

record clients =
  httpx_fetch :: "string \<Rightarrow> py_error + string"
  openai_create :: "openai_request \<Rightarrow> py_error + string option chunks"
  anthropic_bedrock_create :: "anthropic_bedrock_request \<Rightarrow> py_error + string option chunks"
  anthropic_stream :: "anthropic_request \<Rightarrow> py_error + string chunks"
  gemini_generate_content :: "gemini_request \<Rightarrow> py_error + gemini_chunk chunks"
  groq_create :: "groq_request \<Rightarrow> py_error + string option chunks"
  bedrock_invoke_model :: "string \<Rightarrow> native_request \<Rightarrow> py_error + string"
  bedrock_invoke_model_with_response_stream ::
    "string \<Rightarrow> native_request \<Rightarrow> py_error + bedrock_chunk chunks"

text \<open>
  What a dispatch leaves behind: the calls of \<open>send\<close> in order, each with its \<open>body\<close> and
  its \<open>more_body\<close> flag, and the log. \<open>body\<close> is kept as the text that is encoded.
\<close>

record out =
  sent :: "(string \<times> bool) list"
  logged :: "log_entry list"

definition send :: "string \<Rightarrow> bool \<Rightarrow> out \<Rightarrow> out" where
  "send body more_body s = s\<lparr>sent := sent s @ [(body, more_body)]\<rparr>"

definition logging :: "log_entry \<Rightarrow> out \<Rightarrow> out" where
  "logging entry s = s\<lparr>logged := logged s @ [entry]\<rparr>"

subsection \<open>The loops\<close>

text \<open>
  The buffered loop of the OpenAI, Groq and Bedrock branches:
  \<^verbatim>\<open>
  async for chunk in response:
      token = ...
      buffer.append(token)
      if len(buffer) == n:
          joined_buffer = "".join(buffer)
          await send({..., "body": joined_buffer.encode("utf-8"), "more_body": True})
          bt.logging.info(f"Streamed tokens: {joined_buffer}")
          buffer = []
  \<close>
  It returns the buffer it ends with, or the exception that left it.
\<close>

fun buffer_loop :: "nat \<Rightarrow> ('c \<Rightarrow> py_error + string) \<Rightarrow> 'c chunks \<Rightarrow> string list \<Rightarrow> out
                      \<Rightarrow> (py_error + string list) \<times> out" where
  "buffer_loop n tok End_of_stream buffer s = (Inr buffer, s)"
| "buffer_loop n tok (Raises e) buffer s = (Inl e, s)"
| "buffer_loop n tok (Chunk c rest) buffer s =
     (case tok c of
        Inl e \<Rightarrow> (Inl e, s)
      | Inr token \<Rightarrow>
          let buffer' = buffer @ [token] in
          if length buffer' = n
          then let joined_buffer = concat buffer' in
               buffer_loop n tok rest []
                 (logging (Streamed_tokens joined_buffer) (send joined_buffer True s))
          else buffer_loop n tok rest buffer' s)"

text \<open>The \<open>if buffer:\<close> block that follows the loop in the OpenAI and Bedrock branches.\<close>

definition flush_rest :: "string list \<Rightarrow> out \<Rightarrow> out" where
  "flush_rest buffer s =
     (if buffer \<noteq> []
      then let joined_buffer = concat buffer in
           logging (Streamed_tokens joined_buffer) (send joined_buffer False s)
      else s)"

text \<open>The loop of the AnthropicBedrock branch: a completion is sent when it is not empty.\<close>

fun completion_loop :: "string option chunks \<Rightarrow> out \<Rightarrow> py_error option \<times> out" where
  "completion_loop End_of_stream s = (None, s)"
| "completion_loop (Raises e) s = (Some e, s)"
| "completion_loop (Chunk c rest) s =
     (if truthy c
      then completion_loop rest (logging (Streamed_text (or_empty c)) (send (or_empty c) True s))
      else completion_loop rest s)"

text \<open>The loop of the Anthropic branch over \<open>stream.text_stream\<close>.\<close>

fun text_loop :: "string chunks \<Rightarrow> out \<Rightarrow> py_error option \<times> out" where
  "text_loop End_of_stream s = (None, s)"
| "text_loop (Raises e) s = (Some e, s)"
| "text_loop (Chunk text rest) s =
     text_loop rest (logging (Streamed_text text) (send text True s))"

text \<open>
  The loops of the Gemini branch: \<open>chunk.text\<close> is sent once for every part of the first
  candidate.
\<close>

fun parts_loop :: "nat \<Rightarrow> py_error + string \<Rightarrow> out \<Rightarrow> py_error option \<times> out" where
  "parts_loop 0 text s = (None, s)"
| "parts_loop (Suc k) text s =
     (case text of
        Inl e \<Rightarrow> (Some e, s)
      | Inr t \<Rightarrow> parts_loop k text (logging (Streamed_text t) (send t True s)))"

fun gemini_loop :: "gemini_chunk chunks \<Rightarrow> out \<Rightarrow> py_error option \<times> out" where
  "gemini_loop End_of_stream s = (None, s)"
| "gemini_loop (Raises e) s = (Some e, s)"
| "gemini_loop (Chunk (Gemini_chunk parts text) rest) s =
     (case parts_loop parts text s of
        (Some e, s') \<Rightarrow> (Some e, s')
      | (None, s') \<Rightarrow> gemini_loop rest s')"

subsection \<open>The provider branches of \<open>_prompt\<close>\<close>

text \<open>
  Each branch takes the sink and log as they are and returns them as it leaves them,
  with \<open>None\<close> when the branch ran to its end and \<open>Some e\<close> when \<open>e\<close> was raised in it.
\<close>

text \<open>
  The OpenAI branch up to the upstream call: \<open>message = messages[0]\<close> and the list
  \<open>filtered_messages\<close> built from it.
\<close>

definition openai_filtered_messages :: "message list \<Rightarrow> py_error + openai_message list" where
  "openai_filtered_messages msgs =
     (case msgs of
        [] \<Rightarrow> Inl IndexError
      | message # _ \<Rightarrow>
          (case msg_role message of
             None \<Rightarrow> Inl KeyError
           | Some r \<Rightarrow>
               Inr [(r, (if truthy (msg_content message)
                         then [OpenAI_text (or_empty (msg_content message))] else [])
                      @ (if truthy (msg_image message)
                         then [OpenAI_image_url (or_empty (msg_image message))] else []))]))"

definition openai_branch :: "clients \<Rightarrow> synapse \<Rightarrow> out \<Rightarrow> py_error option \<times> out" where
  "openai_branch cl synapse s =
     (case openai_filtered_messages (messages synapse) of
        Inl e \<Rightarrow> (Some e, s)
      | Inr filtered_messages \<Rightarrow>
          (case openai_create cl (OpenAI_request (model synapse) filtered_messages
                                   (temperature synapse) (seed synapse) (max_tokens synapse)) of
             Inl e \<Rightarrow> (Some e, s)
           | Inr response \<Rightarrow>
               (case buffer_loop 1 (\<lambda>c. Inr (or_empty c)) response [] s of
                  (Inl e, s') \<Rightarrow> (Some e, s')
                | (Inr buffer, s') \<Rightarrow> (None, flush_rest buffer s'))))"

definition anthropic_bedrock_branch :: "clients \<Rightarrow> synapse \<Rightarrow> out \<Rightarrow> py_error option \<times> out" where
  "anthropic_bedrock_branch cl synapse s =
     (case anthropic_bedrock_create cl
             (AnthropicBedrock_request (messages synapse) (max_tokens synapse)
                (temperature synapse) (top_k synapse) (top_p synapse) (model synapse)) of
        Inl e \<Rightarrow> (Some e, s)
      | Inr stream \<Rightarrow>
          (case completion_loop stream s of
             (Some e, s') \<Rightarrow> (Some e, s')
           | (None, s') \<Rightarrow> (None, send [] False s')))"

definition anthropic_branch :: "clients \<Rightarrow> synapse \<Rightarrow> out \<Rightarrow> py_error option \<times> out" where
  "anthropic_branch cl synapse s =
     (case generate_messages_to_claude (httpx_fetch cl) (messages synapse) of
        Inl e \<Rightarrow> (Some e, s)
      | Inr (filtered_messages, system_prompt) \<Rightarrow>
          (case anthropic_stream cl
                  (Anthropic_request (max_tokens synapse) filtered_messages (model synapse)
                     (if truthy system_prompt then system_prompt else None)) of
             Inl e \<Rightarrow> (Some e, s)
           | Inr stream \<Rightarrow>
               (case text_loop stream s of
                  (Some e, s') \<Rightarrow> (Some e, s')
                | (None, s') \<Rightarrow> (None, send [] False s'))))"

definition gemini_branch :: "clients \<Rightarrow> synapse \<Rightarrow> out \<Rightarrow> py_error option \<times> out" where
  "gemini_branch cl synapse s =
     (case gemini_generate_content cl
             (Gemini_request (model synapse) (messages synapse) (temperature synapse)
                (top_p synapse) (top_k synapse)) of
        Inl e \<Rightarrow> (Some e, s)
      | Inr stream \<Rightarrow>
          (case gemini_loop stream s of
             (Some e, s') \<Rightarrow> (Some e, s')
           | (None, s') \<Rightarrow> (None, send [] False s')))"

definition groq_branch :: "clients \<Rightarrow> synapse \<Rightarrow> out \<Rightarrow> py_error option \<times> out" where
  "groq_branch cl synapse s =
     (case groq_create cl
             (Groq_request (messages synapse) (model synapse) (temperature synapse)
                (max_tokens synapse) (top_p synapse) (seed synapse)) of
        Inl e \<Rightarrow> (Some e, s)
      | Inr stream \<Rightarrow>
          (case buffer_loop 1 (\<lambda>c. Inr (or_empty c)) stream [] s of
             (Inl e, s') \<Rightarrow> (Some e, s')
           | (Inr buffer, s') \<Rightarrow> (None, s')))"

text \<open>\<open>str.startswith\<close>, and \<open>messages[0]["content"]\<close>.\<close>

definition startswith :: "string \<Rightarrow> string \<Rightarrow> bool" where
  "startswith s p = (take (length p) s = p)"

definition first_content :: "message list \<Rightarrow> py_error + string" where
  "first_content msgs =
     (case msgs of
        [] \<Rightarrow> Inl IndexError
      | m # _ \<Rightarrow> (case msg_content m of None \<Rightarrow> Inl KeyError | Some c \<Rightarrow> Inr c))"

text \<open>
  \<open>generate_request\<close> of the Bedrock branch; the request is kept as the dictionary that is
  serialised. When no family matches, \<open>native_request\<close> is read without having been bound.
\<close>

definition generate_request :: "clients \<Rightarrow> synapse \<Rightarrow> py_error + native_request" where
  "generate_request cl synapse =
     (if startswith (model synapse) ''cohere'' then
        (case first_content (messages synapse) of
           Inl e \<Rightarrow> Inl e
         | Inr c \<Rightarrow> Inr (Cohere_request c (temperature synapse) (max_tokens synapse)
                           (top_p synapse) (seed synapse)))
      else if startswith (model synapse) ''meta'' then
        (case first_content (messages synapse) of
           Inl e \<Rightarrow> Inl e
         | Inr c \<Rightarrow> Inr (Meta_request c (temperature synapse)
                           (if max_tokens synapse > 2048 then 2048 else max_tokens synapse)
                           (top_p synapse)))
      else if startswith (model synapse) ''anthropic'' then
        (case generate_messages_to_claude (httpx_fetch cl) (messages synapse) of
           Inl e \<Rightarrow> Inl e
         | Inr (message, system_prompt) \<Rightarrow>
             Inr (Claude_request message (temperature synapse) (max_tokens synapse)
                    (top_p synapse) (if truthy system_prompt then system_prompt else None)))
      else if startswith (model synapse) ''mistral'' then
        (case first_content (messages synapse) of
           Inl e \<Rightarrow> Inl e
         | Inr c \<Rightarrow> Inr (Mistral_request c (temperature synapse) (max_tokens synapse)))
      else if startswith (model synapse) ''amazon'' then
        (case first_content (messages synapse) of
           Inl e \<Rightarrow> Inl e
         | Inr c \<Rightarrow> Inr (Amazon_request c (max_tokens synapse) (temperature synapse)
                           (top_p synapse)))
      else if startswith (model synapse) ''ai21'' then
        (case first_content (messages synapse) of
           Inl e \<Rightarrow> Inl e
         | Inr c \<Rightarrow> Inr (Ai21_request c (max_tokens synapse) (temperature synapse)
                           (top_p synapse)))
      else Inl UnboundLocalError)"

text \<open>
  \<open>extract_token\<close> on an event of the response stream. The \<open>ai21\<close> family never reaches
  the streaming path, where the variable its case reads is unbound; its one-shot response
  is read through \<open>bedrock_invoke_model\<close>.
\<close>

definition extract_token :: "string \<Rightarrow> bedrock_chunk \<Rightarrow> py_error + string" where
  "extract_token model_id chunk =
     (if startswith model_id ''cohere'' then Inr (or_empty (bc_text chunk))
      else if startswith model_id ''meta'' then Inr (or_empty (bc_generation chunk))
      else if startswith model_id ''anthropic'' then
        (case bc_type chunk of
           None \<Rightarrow> Inl KeyError
         | Some ty \<Rightarrow>
             if ty = ''content_block_delta'' then
               (case bc_delta_type chunk of
                  None \<Rightarrow> Inl KeyError
                | Some dty \<Rightarrow>
                    if dty = ''text_delta'' then
                      (case bc_delta_text chunk of None \<Rightarrow> Inl KeyError | Some t \<Rightarrow> Inr t)
                    else Inr [])
             else Inr [])
      else if startswith model_id ''mistral'' then
        (case bc_outputs chunk of
           None \<Rightarrow> Inl TypeError
         | Some [] \<Rightarrow> Inl IndexError
         | Some (output # _) \<Rightarrow>
             (case output of None \<Rightarrow> Inl KeyError | Some t \<Rightarrow> Inr (or_empty (Some t))))
      else if startswith model_id ''amazon'' then Inr (or_empty (bc_outputText chunk))
      else if startswith model_id ''ai21'' then Inl NameError
      else Inl UnboundLocalError)"

definition bedrock_branch :: "clients \<Rightarrow> synapse \<Rightarrow> out \<Rightarrow> py_error option \<times> out" where
  "bedrock_branch cl synapse s =
     (case generate_request cl synapse of
        Inl e \<Rightarrow> (Some e, s)
      | Inr request \<Rightarrow>
          if startswith (model synapse) ''ai21'' then
            (case bedrock_invoke_model cl (model synapse) request of
               Inl e \<Rightarrow> (Some e, s)
             | Inr message \<Rightarrow> (None, logging (Streamed_tokens message) (send message True s)))
          else
            (case bedrock_invoke_model_with_response_stream cl (model synapse) request of
               Inl e \<Rightarrow> (Some e, s)
             | Inr stream \<Rightarrow>
                 (case buffer_loop 1 (extract_token (model synapse)) stream [] s of
                    (Inl e, s') \<Rightarrow> (Some e, s')
                  | (Inr buffer, s') \<Rightarrow> (None, flush_rest buffer s'))))"

subsection \<open>\<open>_prompt\<close>\<close>

text \<open>The \<open>if\<close>/\<open>elif\<close> chain on \<open>synapse.provider\<close> inside the \<open>try\<close> block.\<close>

definition prompt_body :: "clients \<Rightarrow> synapse \<Rightarrow> out \<Rightarrow> py_error option \<times> out" where
  "prompt_body cl synapse s =
     (if provider synapse = ''OpenAI'' then openai_branch cl synapse s
      else if provider synapse = ''AnthropicBedrock'' then anthropic_bedrock_branch cl synapse s
      else if provider synapse = ''Anthropic'' then anthropic_branch cl synapse s
      else if provider synapse = ''Gemini'' then gemini_branch cl synapse s
      else if provider synapse = ''Groq'' then groq_branch cl synapse s
      else if provider synapse = ''Bedrock'' then bedrock_branch cl synapse s
      else (None, logging (Unknown_provider (provider synapse)) s))"

text \<open>
  The nested coroutine \<open>_prompt(synapse, send)\<close> on a fresh sink: the \<open>try\<close> block, and the
  handler \<open>except Exception as e\<close>, which logs and does nothing else.
\<close>

definition inner_prompt :: "clients \<Rightarrow> synapse \<Rightarrow> out" where
  "inner_prompt cl synapse =
     (case prompt_body cl synapse \<lparr>sent = [], logged = []\<rparr> of
        (None, s) \<Rightarrow> s
      | (Some e, s) \<Rightarrow> logging (Error_in_prompt e) s)"

section \<open>Concrete requests, providers and metagraphs\<close>

text \<open>The inputs at which the theorems below are instantiated.\<close>

definition demo_synapse :: "string \<Rightarrow> message list \<Rightarrow> synapse" where
  "demo_synapse p ms =
     \<lparr>provider = p, model = ''m'', messages = ms, seed = 0, temperature = 0,
      max_tokens = 16, top_p = 1, top_k = 1\<rparr>"

definition demo_clients :: "string option chunks \<Rightarrow> string chunks \<Rightarrow> clients" where
  "demo_clients oc tc =
     \<lparr>httpx_fetch = (\<lambda>url. Inr url),
      openai_create = (\<lambda>r. Inr oc),
      anthropic_bedrock_create = (\<lambda>r. Inr oc),
      anthropic_stream = (\<lambda>r. Inr tc),
      gemini_generate_content = (\<lambda>r. Inr End_of_stream),
      groq_create = (\<lambda>r. Inr oc),
      bedrock_invoke_model = (\<lambda>m r. Inr []),
      bedrock_invoke_model_with_response_stream = (\<lambda>m r. Inr End_of_stream)\<rparr>"

definition plain_message :: "string \<Rightarrow> string \<Rightarrow> message" where
  "plain_message r c = \<lparr>msg_role = Some r, msg_content = Some c, msg_image = None\<rparr>"

definition demo_consts :: "bool \<Rightarrow> int \<Rightarrow> cortext_consts" where
  "demo_consts allow limit =
     \<lparr>ALLOW_NON_REGISTERED = allow, MIN_REQUEST_PERIOD = 1, MAX_REQUESTS = limit,
      PROMPT_BLACKLIST_STAKE = 20000, ISALIVE_BLACKLIST_STAKE = 5000,
      IMAGE_BLACKLIST_STAKE = 5000, EMBEDDING_BLACKLIST_STAKE = 5000\<rparr>"

definition demo_metagraph :: metagraph where
  "demo_metagraph =
     \<lparr>mg_axons = [''hk1'', ''hk2''], mg_hotkeys = [''hk1'', ''hk2''], mg_S = [50000, 10]\<rparr>"

definition demo_header :: "string \<Rightarrow> synapse_header" where
  "demo_header hotkey = \<lparr>dendrite = Some hotkey, synapse_type = ''StreamPrompting''\<rparr>"

text \<open>An embedding endpoint that fails on every batch containing the text \<open>x\<close>.\<close>

definition demo_create :: "string \<Rightarrow> string list \<Rightarrow> py_error + nat list list" where
  "demo_create model_name input =
     (if ''x'' \<in> set input then Inl (UpstreamError ''rate limit'')
      else Inr (map (\<lambda>text. map of_char text) input))"

section \<open>Predicates used in the statements\<close>

text \<open>Every send the sink has received so far carries \<open>more_body = True\<close>.\<close>

definition all_more :: "out \<Rightarrow> bool" where
  "all_more s = list_all snd (sent s)"

text \<open>
  A request reaches the rate check of \<open>base_blacklist\<close> when its hotkey is registered (or
  unregistered callers are allowed), the stake lookup succeeds and the stake is not below
  the threshold.
\<close>

definition passes_stake_gate :: "cortext_consts \<Rightarrow> metagraph \<Rightarrow> string \<Rightarrow> real \<Rightarrow> bool" where
  "passes_stake_gate cortext mg hotkey blacklist_amt =
     ((find_uid (mg_axons mg) hotkey 0 \<noteq> None \<or> ALLOW_NON_REGISTERED cortext)
      \<and> (case py_index (mg_hotkeys mg) hotkey 0 of
            Inl e \<Rightarrow> False
          | Inr i \<Rightarrow>
              (case py_get (mg_S mg) i of
                 Inl e \<Rightarrow> False
               | Inr stake \<Rightarrow> \<not> stake < blacklist_amt)))"

text \<open>The recorded timestamps of a hotkey, none when it has no entry yet.\<close>

definition window_of :: "request_timestamps \<Rightarrow> string \<Rightarrow> real list" where
  "window_of rts hotkey = (case rts hotkey of None \<Rightarrow> [] | Some dq \<Rightarrow> dq)"

text \<open>A decision that admits: the first component of the returned pair is \<open>False\<close>.\<close>

definition admitted :: "(bool \<times> reason) option \<Rightarrow> bool" where
  "admitted d = (case d of None \<Rightarrow> False | Some (blacklisted, r) \<Rightarrow> \<not> blacklisted)"

text \<open>
  System messages, and the content of the last of them: what the loop of
  \<open>generate_messages_to_claude\<close> is shown to leave in \<open>system_prompt\<close>.
\<close>

definition is_system :: "message \<Rightarrow> bool" where
  "is_system m = (msg_role m = Some ''system'')"

definition last_system_prompt :: "message list \<Rightarrow> string option" where
  "last_system_prompt msgs =
     (case filter is_system msgs of [] \<Rightarrow> None | s # ss \<Rightarrow> msg_content (last (s # ss)))"

section \<open>Streaming dispatch: what the sink observes\<close>

lemmas prompt_eval =
  inner_prompt_def prompt_body_def openai_branch_def openai_filtered_messages_def
  groq_branch_def anthropic_branch_def anthropic_bedrock_branch_def
  generate_messages_to_claude_def message_to_append_def demo_clients_def demo_synapse_def plain_message_def
  truthy_def or_empty_def send_def logging_def flush_rest_def Let_def

text \<open>
  Claim C1. A dispatch with flush size 1 against a provider that yields the chunks
  a, b, c should end with one send of an empty payload and \<open>more_body = False\<close> after the
  three sends of a, b, c. On the OpenAI branch the buffer is empty again after every
  chunk, so the \<open>if buffer:\<close> block that holds the only \<open>more_body = False\<close> send never
  runs; the Groq branch has no such send at all. In both the sink observes the three
  \<open>more_body = True\<close> sends and nothing after them.
\<close>

theorem openai_groq_three_chunks_leave_stream_open:
  "inner_prompt
     (demo_clients (Chunk (Some ''a'') (Chunk (Some ''b'') (Chunk (Some ''c'') End_of_stream)))
        End_of_stream)
     (demo_synapse ''OpenAI'' [plain_message ''user'' ''hi''])
   = \<lparr>sent = [(''a'', True), (''b'', True), (''c'', True)],
      logged = [Streamed_tokens ''a'', Streamed_tokens ''b'', Streamed_tokens ''c'']\<rparr>
   \<and> inner_prompt
     (demo_clients (Chunk (Some ''a'') (Chunk (Some ''b'') (Chunk (Some ''c'') End_of_stream)))
        End_of_stream)
     (demo_synapse ''Groq'' [plain_message ''user'' ''hi''])
   = \<lparr>sent = [(''a'', True), (''b'', True), (''c'', True)],
      logged = [Streamed_tokens ''a'', Streamed_tokens ''b'', Streamed_tokens ''c'']\<rparr>"
  by (simp add: prompt_eval)

text \<open>
  The Anthropic branch, on the same three chunks, does close the stream: its loop is
  followed by the send that the source comments as the final message.
\<close>

lemma anthropic_three_chunks_close_stream:
  "sent (inner_prompt
     (demo_clients End_of_stream (Chunk ''a'' (Chunk ''b'' (Chunk ''c'' End_of_stream))))
     (demo_synapse ''Anthropic'' [plain_message ''user'' ''hi'']))
   = [(''a'', True), (''b'', True), (''c'', True), ([], False)]"
  by (simp add: prompt_eval)

text \<open>
  Claim C7. A dispatch whose provider yields no chunk should still make one terminating
  send. On the OpenAI and Groq branches the sink receives nothing at all.
\<close>

theorem openai_groq_zero_chunks_send_nothing:
  "sent (inner_prompt (demo_clients End_of_stream End_of_stream)
            (demo_synapse ''OpenAI'' [plain_message ''user'' ''hi''])) = []
   \<and> sent (inner_prompt (demo_clients End_of_stream End_of_stream)
            (demo_synapse ''Groq'' [plain_message ''user'' ''hi''])) = []"
  by (simp add: prompt_eval)

text \<open>The AnthropicBedrock branch makes the terminating send on an empty stream.\<close>

lemma anthropic_bedrock_zero_chunks_close_stream:
  "sent (inner_prompt (demo_clients End_of_stream End_of_stream)
            (demo_synapse ''AnthropicBedrock'' [plain_message ''user'' ''hi'']))
   = [([], False)]"
  by (simp add: prompt_eval)

text \<open>
  Claim C9, as stated: for an unknown provider name the only send is the mandatory
  terminating one. It fails: for the provider name \<open>Cohere\<close> the sink receives nothing, so
  no send with an empty payload and \<open>more_body = False\<close> is among its sends.
\<close>

theorem unknown_provider_no_terminator:
  "sent (inner_prompt (demo_clients End_of_stream End_of_stream)
           (demo_synapse ''Cohere'' [plain_message ''user'' ''hi''])) = []
   \<and> ([], False) \<notin> set (sent (inner_prompt (demo_clients End_of_stream End_of_stream)
                                   (demo_synapse ''Cohere'' [plain_message ''user'' ''hi''])))"
  by (simp add: prompt_eval)

text \<open>
  Claim C9, amended: for every provider name outside the six of the \<open>if\<close>/\<open>elif\<close> chain,
  whatever the clients and the rest of the request, the dispatch sends nothing to the
  sink, no terminating send either, and logs one unknown-provider error; nothing is
  retried.
\<close>

theorem unknown_provider_sends_nothing:
  "provider synapse \<notin> {''OpenAI'', ''AnthropicBedrock'', ''Anthropic'', ''Gemini'', ''Groq'',
                         ''Bedrock''}
   \<Longrightarrow> inner_prompt cl synapse
       = \<lparr>sent = [], logged = [Unknown_provider (provider synapse)]\<rparr>"
  by (simp add: inner_prompt_def prompt_body_def logging_def)

theorem unknown_provider_sends_nothing_witness:
  "''Mistral'' \<notin> {''OpenAI'', ''AnthropicBedrock'', ''Anthropic'', ''Gemini'', ''Groq'',
                    ''Bedrock''}
   \<and> inner_prompt (demo_clients End_of_stream End_of_stream)
        (demo_synapse ''Mistral'' [plain_message ''user'' ''hi''])
     = \<lparr>sent = [], logged = [Unknown_provider ''Mistral'']\<rparr>"
  using unknown_provider_sends_nothing
          [of "demo_synapse ''Mistral'' [plain_message ''user'' ''hi'']"
              "demo_clients End_of_stream End_of_stream"]
  by (simp add: demo_synapse_def)


subsection \<open>Errors raised inside a dispatch\<close>

lemma all_more_send: "all_more s \<Longrightarrow> all_more (logging e (send b True s))"
  by (simp add: all_more_def send_def logging_def)

lemma buffer_loop_more:
  "buffer_loop n tok cs buffer s = (r, s') \<Longrightarrow> all_more s \<Longrightarrow> all_more s'"
proof (induction n tok cs buffer s rule: buffer_loop.induct)
  case (3 n tok c rest buffer s)
  then show ?case
    by (auto simp: Let_def all_more_send split: sum.splits if_splits)
qed auto

lemma completion_loop_more:
  "completion_loop cs s = (r, s') \<Longrightarrow> all_more s \<Longrightarrow> all_more s'"
  by (induction cs s rule: completion_loop.induct) (auto simp: all_more_send split: if_splits)

lemma text_loop_more:
  "text_loop cs s = (r, s') \<Longrightarrow> all_more s \<Longrightarrow> all_more s'"
  by (induction cs s rule: text_loop.induct) (auto simp: all_more_send)

lemma parts_loop_more:
  "parts_loop k t s = (r, s') \<Longrightarrow> all_more s \<Longrightarrow> all_more s'"
  by (induction k t s rule: parts_loop.induct) (auto simp: all_more_send split: sum.splits)

lemma gemini_loop_more:
  "gemini_loop cs s = (r, s') \<Longrightarrow> all_more s \<Longrightarrow> all_more s'"
proof (induction cs s rule: gemini_loop.induct)
  case (3 parts tx rest s)
  then show ?case
    by (auto split: prod.splits option.splits dest: parts_loop_more)
qed auto

lemma openai_branch_raise:
  "openai_branch cl synapse s = (Some e, s') \<Longrightarrow> all_more s \<Longrightarrow> all_more s'"
  by (auto simp: openai_branch_def split: sum.splits prod.splits dest: buffer_loop_more)

lemma groq_branch_raise:
  "groq_branch cl synapse s = (Some e, s') \<Longrightarrow> all_more s \<Longrightarrow> all_more s'"
  by (auto simp: groq_branch_def split: sum.splits prod.splits dest: buffer_loop_more)

lemma anthropic_bedrock_branch_raise:
  "anthropic_bedrock_branch cl synapse s = (Some e, s') \<Longrightarrow> all_more s \<Longrightarrow> all_more s'"
  by (auto simp: anthropic_bedrock_branch_def split: sum.splits prod.splits option.splits
           dest: completion_loop_more)

lemma anthropic_branch_raise:
  "anthropic_branch cl synapse s = (Some e, s') \<Longrightarrow> all_more s \<Longrightarrow> all_more s'"
  by (auto simp: anthropic_branch_def split: sum.splits prod.splits option.splits
           dest: text_loop_more)

lemma gemini_branch_raise:
  "gemini_branch cl synapse s = (Some e, s') \<Longrightarrow> all_more s \<Longrightarrow> all_more s'"
  by (auto simp: gemini_branch_def split: sum.splits prod.splits option.splits
           dest: gemini_loop_more)

lemma bedrock_branch_raise:
  "bedrock_branch cl synapse s = (Some e, s') \<Longrightarrow> all_more s \<Longrightarrow> all_more s'"
  by (auto simp: bedrock_branch_def split: sum.splits prod.splits if_splits
           dest: buffer_loop_more)

lemma prompt_body_raise:
  "prompt_body cl synapse s = (Some e, s') \<Longrightarrow> all_more s \<Longrightarrow> all_more s'"
  unfolding prompt_body_def
  by (auto split: if_splits
           dest: openai_branch_raise groq_branch_raise anthropic_bedrock_branch_raise
                 anthropic_branch_raise gemini_branch_raise bedrock_branch_raise)

text \<open>
  Claim C2, as stated: when the provider's chunk sequence raises after some tokens, the
  dispatcher still makes a terminating send. It fails: on the Anthropic branch, with a
  stream that yields a and then raises, the sink receives the one send of a with
  \<open>more_body = True\<close>; the handler logs the error and sends nothing.
\<close>

theorem anthropic_raise_mid_stream_no_terminator:
  "sent (inner_prompt
           (demo_clients End_of_stream (Chunk ''a'' (Raises (UpstreamError ''reset''))))
           (demo_synapse ''Anthropic'' [plain_message ''user'' ''hi''])) = [(''a'', True)]
   \<and> logged (inner_prompt
           (demo_clients End_of_stream (Chunk ''a'' (Raises (UpstreamError ''reset''))))
           (demo_synapse ''Anthropic'' [plain_message ''user'' ''hi'']))
      = [Streamed_text ''a'', Error_in_prompt (UpstreamError ''reset'')]
   \<and> ([], False) \<notin> set (sent (inner_prompt
           (demo_clients End_of_stream (Chunk ''a'' (Raises (UpstreamError ''reset''))))
           (demo_synapse ''Anthropic'' [plain_message ''user'' ''hi''])))"
  by (simp add: prompt_eval)

text \<open>
  Claim C2, amended: whenever an exception is raised inside a dispatch, by the chunk
  sequence mid-stream or anywhere else in the \<open>try\<close> block, for any provider, the handler
  logs it and does nothing more. The sends made before the raise are what the sink has
  observed, and every one of them carries \<open>more_body = True\<close>: no terminating send is made.
\<close>

theorem raise_leaves_no_terminator:
  assumes "prompt_body cl synapse \<lparr>sent = [], logged = []\<rparr> = (Some e, s')"
  shows "inner_prompt cl synapse = logging (Error_in_prompt e) s'
         \<and> sent (inner_prompt cl synapse) = sent s'
         \<and> (\<forall>x \<in> set (sent (inner_prompt cl synapse)). snd x = True)"
proof -
  have "all_more \<lparr>sent = [], logged = []\<rparr>" by (simp add: all_more_def)
  with assms have "all_more s'" by (rule prompt_body_raise)
  then show ?thesis using assms
    by (simp add: inner_prompt_def logging_def all_more_def list_all_iff)
qed

theorem raise_leaves_no_terminator_witness:
  "prompt_body (demo_clients (Chunk (Some ''a'') (Raises (UpstreamError ''reset''))) End_of_stream)
     (demo_synapse ''OpenAI'' [plain_message ''user'' ''hi'']) \<lparr>sent = [], logged = []\<rparr>
   = (Some (UpstreamError ''reset''), \<lparr>sent = [(''a'', True)], logged = [Streamed_tokens ''a'']\<rparr>)
   \<and> sent (inner_prompt
             (demo_clients (Chunk (Some ''a'') (Raises (UpstreamError ''reset''))) End_of_stream)
             (demo_synapse ''OpenAI'' [plain_message ''user'' ''hi''])) = [(''a'', True)]
   \<and> all_more (inner_prompt
             (demo_clients (Chunk (Some ''a'') (Raises (UpstreamError ''reset''))) End_of_stream)
             (demo_synapse ''OpenAI'' [plain_message ''user'' ''hi'']))"
proof -
  have h: "prompt_body
             (demo_clients (Chunk (Some ''a'') (Raises (UpstreamError ''reset''))) End_of_stream)
             (demo_synapse ''OpenAI'' [plain_message ''user'' ''hi'']) \<lparr>sent = [], logged = []\<rparr>
           = (Some (UpstreamError ''reset''),
              \<lparr>sent = [(''a'', True)], logged = [Streamed_tokens ''a'']\<rparr>)"
    by (simp add: prompt_eval)
  show ?thesis using h raise_leaves_no_terminator [OF h]
    by (simp add: logging_def all_more_def list_all_iff)
qed

subsection \<open>The buffered branches never close the stream\<close>

text \<open>
  With \<open>n = 1\<close> the buffer is empty whenever the loop is left, so the \<open>if buffer:\<close> block
  sends nothing. Whatever the upstream yields, a dispatch to OpenAI, Groq or Bedrock makes
  no send with \<open>more_body = False\<close>.
\<close>

lemma buffer_loop_one:
  "buffer_loop (Suc 0) tok cs [] s = (r, s') \<Longrightarrow> all_more s \<Longrightarrow>
     all_more s' \<and> (\<forall>buffer. r = Inr buffer \<longrightarrow> flush_rest buffer s' = s')"
  by (induction cs arbitrary: s) (auto simp: all_more_send flush_rest_def split: sum.splits)

lemma openai_branch_more:
  "openai_branch cl synapse s = (r, s') \<Longrightarrow> all_more s \<Longrightarrow> all_more s'"
  by (auto simp: openai_branch_def split: sum.splits prod.splits dest!: buffer_loop_one)

lemma groq_branch_more:
  "groq_branch cl synapse s = (r, s') \<Longrightarrow> all_more s \<Longrightarrow> all_more s'"
  by (auto simp: groq_branch_def split: sum.splits prod.splits dest!: buffer_loop_one)

lemma bedrock_branch_more:
  "bedrock_branch cl synapse s = (r, s') \<Longrightarrow> all_more s \<Longrightarrow> all_more s'"
  by (auto simp: bedrock_branch_def all_more_send
           split: sum.splits prod.splits if_splits dest!: buffer_loop_one)

lemma buffered_branches_never_close:
  assumes "provider synapse \<in> {''OpenAI'', ''Groq'', ''Bedrock''}"
  shows "all_more (inner_prompt cl synapse)"
proof -
  obtain r s' where b: "prompt_body cl synapse \<lparr>sent = [], logged = []\<rparr> = (r, s')"
    by fastforce
  have "all_more \<lparr>sent = [], logged = []\<rparr>" by (simp add: all_more_def)
  with b assms have "all_more s'"
    by (auto simp: prompt_body_def dest: openai_branch_more groq_branch_more bedrock_branch_more)
  then show ?thesis using b
    by (cases r) (simp_all add: inner_prompt_def all_more_def logging_def)
qed

section \<open>Embedding batches\<close>

lemma slices_concat_take:
  "concat (map (\<lambda>k. take n (drop (k * n) xs)) [0 ..< m]) = take (m * n) xs"
proof (induction m)
  case (Suc m)
  have "take (m * n + n) xs = take (m * n) xs @ take n (drop (m * n) xs)"
    by (rule take_add)
  moreover have "Suc m * n = m * n + n" by simp
  ultimately have "take (Suc m * n) xs = take (m * n) xs @ take n (drop (m * n) xs)"
    by (simp only:)
  with Suc show ?case by simp
qed simp

lemma range_covers: "0 < n \<Longrightarrow> len \<le> ((len + n - 1) div n) * (n::nat)"
proof -
  assume n: "0 < n"
  have "len + n - 1 = ((len + n - 1) div n) * n + (len + n - 1) mod n" by simp
  moreover have "(len + n - 1) mod n < n" using n by simp
  ultimately show ?thesis by linarith
qed

lemma make_batches_pos:
  assumes "0 < batch_size"
  shows "make_batches texts batch_size =
           Inr (map (\<lambda>k. take (nat batch_size) (drop (k * nat batch_size) texts))
                  [0 ..< (length texts + nat batch_size - 1) div nat batch_size])"
  using assms by (simp add: make_batches_def py_range_step_def py_slice_def comp_def)

lemma make_batches_concat:
  assumes "0 < batch_size" "make_batches texts batch_size = Inr batches"
  shows "concat batches = texts" "\<forall>b \<in> set batches. b \<noteq> [] \<and> length b \<le> nat batch_size"
proof -
  let ?n = "nat batch_size"
  let ?m = "(length texts + ?n - 1) div ?n"
  have n: "0 < ?n" using assms by simp
  have b: "batches = map (\<lambda>k. take ?n (drop (k * ?n) texts)) [0 ..< ?m]"
    using make_batches_pos [OF assms(1), of texts] assms(2) by simp
  have "length texts \<le> ?m * ?n" using range_covers [OF n] .
  then show "concat batches = texts" by (simp add: b slices_concat_take)
  show "\<forall>b \<in> set batches. b \<noteq> [] \<and> length b \<le> nat batch_size"
  proof
    fix x assume "x \<in> set batches"
    then obtain k where k: "k < ?m" and x: "x = take ?n (drop (k * ?n) texts)"
      by (auto simp: b)
    have "k * ?n < length texts"
    proof (rule ccontr)
      assume "\<not> k * ?n < length texts"
      then have "length texts \<le> k * ?n" by simp
      then have "length texts + ?n - 1 < (k + 1) * ?n" using n by simp
      then have "?m < k + 1" using n by (simp add: div_less_iff_less_mult)
      with k show False by simp
    qed
    then show "x \<noteq> [] \<and> length x \<le> nat batch_size" using n by (simp add: x)
  qed
qed

lemma make_tasks_fst:
  "fst (make_tasks batches tasks lg)
     = tasks @ filter (\<lambda>b. b \<noteq> []) (map (filter (\<lambda>text. py_strip text \<noteq> [])) batches)"
  by (induction batches tasks lg rule: make_tasks.induct) (simp_all add: Let_def)

lemma concat_drop_empty: "concat (filter (\<lambda>b. b \<noteq> []) xss) = concat xss"
  by (induction xss) auto

lemma filter_concat_map: "concat (map (filter P) xss) = filter P (concat xss)"
  by (induction xss) auto

lemma collect_results_fst:
  "fst (collect_results results acc lg) = acc @ concat [vs. Inr vs \<leftarrow> results]"
  by (induction results acc lg rule: collect_results.induct) (simp_all split: sum.splits)

lemma collect_results_snd:
  "snd (collect_results results acc lg) = lg @ [Error_in_processing_batch e. Inl e \<leftarrow> results]"
  by (induction results acc lg rule: collect_results.induct) (simp_all split: sum.splits)

lemmas embed_eval = issued_batches_def make_batches_def py_range_step_def py_slice_def
  py_strip_def is_space_def Let_def upt_rec get_embeddings_in_batch_def demo_create_def

text \<open>
  Claim C3, as stated: the batcher filters the whole list first and then partitions the
  survivors, so that the texts x, empty, two blanks, y, z with batch size 2 are issued as
  the batches [x, y] and [z]. It fails: the code slices the original list first, into
  [x, empty], [blanks, y], [z], and filters inside each slice; the issued batches are
  [x], [y] and [z].
\<close>

theorem embedding_batches_partition_before_filter:
  "issued_batches [''x'', '''', ''  '', ''y'', ''z''] 2 = Inr [[''x''], [''y''], [''z'']]
   \<and> issued_batches [''x'', '''', ''  '', ''y'', ''z''] 2 \<noteq> Inr [[''x'', ''y''], [''z'']]"
  by (simp add: embed_eval)

text \<open>
  Claim C3, amended: for every text list and every positive batch size, the batcher
  first partitions the original list into consecutive slices of at most the batch size
  (none of them empty, together the whole list in order), then filters the empty and
  whitespace-only strings out of each slice, keeping the order, and issues one batch for
  every slice that has a survivor. The issued batches are never empty, hold at most the
  batch size of texts each, and concatenated they are the surviving texts in their
  original order.
\<close>

theorem embedding_batches_slice_then_filter:
  assumes "0 < batch_size"
  shows "\<exists>batches issued.
           make_batches texts batch_size = Inr batches
           \<and> issued_batches texts batch_size = Inr issued
           \<and> concat batches = texts
           \<and> (\<forall>b \<in> set batches. b \<noteq> [] \<and> length b \<le> nat batch_size)
           \<and> issued = filter (\<lambda>b. b \<noteq> [])
                        (map (filter (\<lambda>text. py_strip text \<noteq> [])) batches)
           \<and> (\<forall>b \<in> set issued. b \<noteq> [] \<and> length b \<le> nat batch_size)
           \<and> concat issued = filter (\<lambda>text. py_strip text \<noteq> []) texts"
proof -
  obtain batches where mb: "make_batches texts batch_size = Inr batches"
    using make_batches_pos [OF assms] by blast
  define issued where
    "issued = filter (\<lambda>b. b \<noteq> []) (map (filter (\<lambda>text. py_strip text \<noteq> [])) batches)"
  have c: "concat batches = texts" using make_batches_concat(1) [OF assms mb] .
  have bounded: "\<forall>b \<in> set batches. b \<noteq> [] \<and> length b \<le> nat batch_size"
    using make_batches_concat(2) [OF assms mb] .
  have i: "issued_batches texts batch_size = Inr issued"
    by (simp add: issued_batches_def mb make_tasks_fst issued_def)
  have ci: "concat issued = filter (\<lambda>text. py_strip text \<noteq> []) texts"
    by (simp add: issued_def concat_drop_empty filter_concat_map c)
  have bi: "\<forall>b \<in> set issued. b \<noteq> [] \<and> length b \<le> nat batch_size"
  proof
    fix b assume "b \<in> set issued"
    then obtain b0 where b0: "b0 \<in> set batches"
      and b: "b = filter (\<lambda>text. py_strip text \<noteq> []) b0" and ne: "b \<noteq> []"
      by (auto simp: issued_def)
    have "length b \<le> length b0" unfolding b by (rule length_filter_le)
    with bounded b0 ne show "b \<noteq> [] \<and> length b \<le> nat batch_size" by fastforce
  qed
  show ?thesis using mb i c bounded issued_def bi ci by blast
qed

theorem embedding_batches_slice_then_filter_witness:
  "(0::int) < 2
   \<and> make_batches [''x'', '''', ''  '', ''y'', ''z''] 2
       = Inr [[''x'', ''''], [''  '', ''y''], [''z'']]
   \<and> issued_batches [''x'', '''', ''  '', ''y'', ''z''] 2 = Inr [[''x''], [''y''], [''z'']]
   \<and> concat [[''x''], [''y''], [''z'']]
       = filter (\<lambda>text. py_strip text \<noteq> []) [''x'', '''', ''  '', ''y'', ''z'']"
proof -
  have h: "(0::int) < 2" by simp
  have m: "make_batches [''x'', '''', ''  '', ''y'', ''z''] 2
             = Inr [[''x'', ''''], [''  '', ''y''], [''z'']]"
    by (simp add: embed_eval)
  from embedding_batches_slice_then_filter [OF h, of "[''x'', '''', ''  '', ''y'', ''z'']"] m
  show ?thesis by (simp add: py_strip_def is_space_def)
qed

text \<open>
  Claim C8. Whatever batches fail, the run returns a result: the concatenation, in the
  order in which the batches were issued, of the vectors of the batches that succeeded,
  each batch's vectors in the order the endpoint returned them. A failed batch adds
  nothing and stops no other batch.
\<close>

theorem embeddings_concatenate_successful_batches:
  assumes "batch_size \<noteq> 0"
  shows "\<exists>tasks. issued_batches texts batch_size = Inr tasks
           \<and> fst (get_embeddings_in_batch create texts model_name batch_size)
               = Inr (concat [vs. Inr vs \<leftarrow> map (create model_name) tasks])"
proof -
  obtain batches where mb: "make_batches texts batch_size = Inr batches"
    using assms by (cases "batch_size < 0") (simp_all add: make_batches_def)
  obtain tasks lg where mt: "make_tasks batches [] [] = (tasks, lg)" by fastforce
  obtain al lg' where cr: "collect_results (map (create model_name) tasks) [] lg = (al, lg')"
    by fastforce
  have 1: "issued_batches texts batch_size = Inr tasks" by (simp add: issued_batches_def mb mt)
  have 2: "al = concat [vs. Inr vs \<leftarrow> map (create model_name) tasks]"
    using collect_results_fst [of "map (create model_name) tasks" "[]" lg] cr by simp
  have 3: "get_embeddings_in_batch create texts model_name batch_size = (Inr al, lg')"
    by (simp add: get_embeddings_in_batch_def mb mt cr Let_def)
  show ?thesis using 1 2 3 by simp
qed

theorem embeddings_concatenate_successful_batches_witness:
  "(2::int) \<noteq> 0
   \<and> issued_batches [''x'', '''', ''  '', ''y'', ''z''] 2 = Inr [[''x''], [''y''], [''z'']]
   \<and> demo_create ''m'' [''x''] = Inl (UpstreamError ''rate limit'')
   \<and> fst (get_embeddings_in_batch demo_create [''x'', '''', ''  '', ''y'', ''z''] ''m'' 2)
       = Inr [[121], [122]]"
proof -
  have h: "(2::int) \<noteq> 0" by simp
  have i: "issued_batches [''x'', '''', ''  '', ''y'', ''z''] 2 = Inr [[''x''], [''y''], [''z'']]"
    by (simp add: embed_eval)
  from embeddings_concatenate_successful_batches
         [OF h, of "[''x'', '''', ''  '', ''y'', ''z'']" demo_create "''m''"] i
  show ?thesis by (simp add: demo_create_def)
qed

section \<open>Translation for the system-prompt-extracting provider\<close>

lemma claude_loop_result:
  "claude_loop fetch ms sp fm = Inr (fm', sp') \<Longrightarrow>
     sp' = (if filter is_system ms = [] then sp else msg_content (last (filter is_system ms)))
     \<and> map Inr fm' = map Inr fm @ map (message_to_append fetch) (filter (\<lambda>m. \<not> is_system m) ms)"
proof (induction ms arbitrary: sp fm)
  case Nil
  then show ?case by simp
next
  case (Cons m ms)
  show ?case
  proof (cases "is_system m")
    case True
    then obtain c where c: "msg_content m = Some c"
      and rec: "claude_loop fetch ms (Some c) fm = Inr (fm', sp')"
      using Cons.prems by (auto simp: is_system_def split: option.splits)
    from Cons.IH [OF rec] True c show ?thesis by simp
  next
    case False
    then obtain a where a: "message_to_append fetch m = Inr a"
      and rec: "claude_loop fetch ms sp (fm @ [a]) = Inr (fm', sp')"
      using Cons.prems by (auto simp: is_system_def split: option.splits sum.splits if_splits)
    from Cons.IH [OF rec] False a show ?thesis by simp
  qed
qed

text \<open>
  The translation returns whenever every message has a role, every system message has a
  content and every other message can be translated (its image, if any, can be fetched).
\<close>

lemma claude_loop_returns:
  assumes "\<forall>m \<in> set msgs. msg_role m \<noteq> None \<and> (is_system m \<longrightarrow> msg_content m \<noteq> None)
             \<and> (\<not> is_system m \<longrightarrow> (\<exists>a. message_to_append fetch m = Inr a))"
  shows "\<exists>fm sp'. claude_loop fetch msgs sp fm0 = Inr (fm, sp')"
  using assms
proof (induction msgs arbitrary: sp fm0)
  case (Cons m ms)
  then show ?case by (cases "is_system m") (auto simp: is_system_def)
qed simp

text \<open>
  Claim C4, as stated: the first system message is the one honored, and a later system
  message stays in the translated list as a regular message. It fails: for the messages
  system A, user hi, system B the system prompt is B, and the translated list holds the
  user message only.
\<close>

theorem claude_last_system_message_wins:
  "generate_messages_to_claude (\<lambda>url. Inr url)
     [plain_message ''system'' ''A'', plain_message ''user'' ''hi'', plain_message ''system'' ''B'']
   = Inr ([(''user'', [Claude_text ''hi''])], Some ''B'')"
  by (simp add: generate_messages_to_claude_def message_to_append_def plain_message_def
        truthy_def or_empty_def)

text \<open>
  Claim C4, amended: whenever the translation returns, at most one system message is
  honored, the last one of the list (each system message overwrites the system prompt
  taken from the ones before it), and no system message, first or later, is in the
  translated list: that list is the translation of the non-system messages, one entry
  each, in their order.
\<close>

theorem claude_system_prompt_is_last:
  assumes "generate_messages_to_claude fetch msgs = Inr (filtered_messages, system_prompt)"
  shows "system_prompt = last_system_prompt msgs
         \<and> map Inr filtered_messages
             = map (message_to_append fetch) (filter (\<lambda>m. \<not> is_system m) msgs)
         \<and> length filtered_messages = length (filter (\<lambda>m. \<not> is_system m) msgs)
         \<and> ''system'' \<notin> fst ` set filtered_messages"
proof -
  from assms have r: "claude_loop fetch msgs None [] = Inr (filtered_messages, system_prompt)"
    by (simp add: generate_messages_to_claude_def)
  note res = claude_loop_result [OF r]
  have sp: "system_prompt = last_system_prompt msgs"
    using res by (simp add: last_system_prompt_def split: list.splits)
  have fm: "map Inr filtered_messages
             = map (message_to_append fetch) (filter (\<lambda>m. \<not> is_system m) msgs)"
    using res by simp
  have len: "length filtered_messages = length (filter (\<lambda>m. \<not> is_system m) msgs)"
    using arg_cong [OF fm, of length] by simp
  have ns: "''system'' \<notin> fst ` set filtered_messages"
  proof
    assume "''system'' \<in> fst ` set filtered_messages"
    then obtain bl where "(''system'', bl) \<in> set filtered_messages" by force
    then have "Inr (''system'', bl)
                 \<in> set (map Inr filtered_messages :: (py_error + claude_message) list)"
      by simp
    then obtain m where m: "\<not> is_system m" "message_to_append fetch m = Inr (''system'', bl)"
      unfolding fm by auto
    then show False
      by (auto simp: message_to_append_def is_system_def split: option.splits sum.splits if_splits)
  qed
  show ?thesis using sp fm len ns by blast
qed

theorem claude_system_prompt_is_last_witness:
  "generate_messages_to_claude (\<lambda>url. Inr url)
     [plain_message ''system'' ''A'', plain_message ''system'' ''B'', plain_message ''user'' ''hi'',
      plain_message ''assistant'' ''yo'']
   = Inr ([(''user'', [Claude_text ''hi'']), (''assistant'', [Claude_text ''yo''])], Some ''B'')
   \<and> last_system_prompt
       [plain_message ''system'' ''A'', plain_message ''system'' ''B'', plain_message ''user'' ''hi'',
        plain_message ''assistant'' ''yo''] = Some ''B''
   \<and> length [(''user'', [Claude_text ''hi'']), (''assistant'', [Claude_text ''yo''])]
       = length (filter (\<lambda>m. \<not> is_system m)
          [plain_message ''system'' ''A'', plain_message ''system'' ''B'', plain_message ''user'' ''hi'',
           plain_message ''assistant'' ''yo''])"
proof -
  have h: "generate_messages_to_claude (\<lambda>url. Inr url)
     [plain_message ''system'' ''A'', plain_message ''system'' ''B'', plain_message ''user'' ''hi'',
      plain_message ''assistant'' ''yo'']
   = Inr ([(''user'', [Claude_text ''hi'']), (''assistant'', [Claude_text ''yo''])], Some ''B'')"
    by (simp add: generate_messages_to_claude_def message_to_append_def plain_message_def
        truthy_def or_empty_def)
  from claude_system_prompt_is_last [OF h] h show ?thesis by simp
qed

section \<open>Admission\<close>

lemma rate_step:
  assumes "passes_stake_gate cortext mg hotkey amt" "dendrite synapse = Some hotkey"
  shows "base_blacklist cortext mg now rts synapse amt =
    (let dq = prune_timestamps now (MIN_REQUEST_PERIOD cortext * 60) (window_of rts hotkey) in
     if int (length dq) \<ge> MAX_REQUESTS cortext
     then (Some (True, Request_frequency_exceeded hotkey (length dq)
                         (MIN_REQUEST_PERIOD cortext) (MAX_REQUESTS cortext)),
           rts(hotkey \<mapsto> dq), [])
     else (Some (False, Accepting_request (synapse_type synapse) hotkey),
           rts(hotkey \<mapsto> dq @ [now]), []))"
  using assms
  by (auto simp: passes_stake_gate_def base_blacklist_def base_blacklist_body_def window_of_def
                 Let_def
           split: sum.splits option.splits)

lemma gate_fails:
  assumes "\<not> passes_stake_gate cortext mg hotkey amt" "dendrite synapse = Some hotkey"
      and "base_blacklist cortext mg now rts synapse amt = (d, rts', lg)"
  shows "\<not> admitted d \<and> rts' = rts"
  using assms
  by (auto simp: passes_stake_gate_def base_blacklist_def base_blacklist_body_def admitted_def
                 Let_def
           split: sum.splits option.splits if_splits)

lemma prune_all_old:
  "\<forall>t \<in> set dq. now - t > w \<Longrightarrow> prune_timestamps now w dq = []"
  by (induction dq) auto

text \<open>
  The loop drops entries from the old end only. On a window in which the timestamps are
  in the order they were taken, that removes exactly the entries older than the window.
\<close>

lemma prune_sorted_filter:
  "sorted dq \<Longrightarrow> prune_timestamps now w dq = filter (\<lambda>t. \<not> now - t > w) dq"
proof (induction dq)
  case (Cons t ts)
  show ?case
  proof (cases "now - t > w")
    case True
    with Cons show ?thesis by simp
  next
    case False
    with Cons.prems have "\<forall>u \<in> set ts. \<not> now - u > w" by auto
    then have "filter (\<lambda>t. \<not> now - t > w) ts = ts" by (simp add: filter_id_conv)
    with False show ?thesis by simp
  qed
qed simp

lemma prune_keeps_sorted:
  "sorted dq \<Longrightarrow> \<forall>t \<in> set dq. t \<le> now \<Longrightarrow> sorted (prune_timestamps now w dq @ [now])"
  by (simp add: prune_sorted_filter sorted_append sorted_wrt_filter)

text \<open>
  Claim C5. Let \<open>dq\<close> be the window of the hotkey after the pruning loop. For a request
  that reaches the rate check: if \<open>dq\<close> holds at least \<open>MAX_REQUESTS\<close> entries the request
  is rejected with a reason that carries the count and the limit, and the window is left
  as \<open>dq\<close>; otherwise the request is admitted and the window becomes \<open>dq\<close> followed by the
  current time. For any request, the current time is appended (once) exactly when the
  request is admitted: a request that is not admitted leaves the dictionary as it was or
  only pruned. Once every recorded timestamp is older than the window, a request that
  reaches the rate check is admitted again (the limit being positive). On a window in
  time order the pruning removes exactly the timestamps older than the window.
\<close>

theorem rate_window_admission:
  assumes hk: "dendrite synapse = Some hotkey"
      and res: "base_blacklist cortext mg current_time rts synapse blacklist_amt = (d, rts', lg)"
      and dq: "dq = prune_timestamps current_time (MIN_REQUEST_PERIOD cortext * 60)
                      (window_of rts hotkey)"
  shows "(passes_stake_gate cortext mg hotkey blacklist_amt
            \<and> int (length dq) \<ge> MAX_REQUESTS cortext
            \<longrightarrow> d = Some (True, Request_frequency_exceeded hotkey (length dq)
                                  (MIN_REQUEST_PERIOD cortext) (MAX_REQUESTS cortext))
                \<and> rts' = rts(hotkey \<mapsto> dq))
       \<and> (passes_stake_gate cortext mg hotkey blacklist_amt
            \<and> int (length dq) < MAX_REQUESTS cortext
            \<longrightarrow> d = Some (False, Accepting_request (synapse_type synapse) hotkey)
                \<and> rts' = rts(hotkey \<mapsto> dq @ [current_time]))
       \<and> (admitted d \<longrightarrow> rts' = rts(hotkey \<mapsto> dq @ [current_time]))
       \<and> (\<not> admitted d \<longrightarrow> rts' = rts \<or> rts' = rts(hotkey \<mapsto> dq))
       \<and> (passes_stake_gate cortext mg hotkey blacklist_amt \<and> 0 < MAX_REQUESTS cortext
            \<and> (\<forall>t \<in> set (window_of rts hotkey).
                  current_time - t > MIN_REQUEST_PERIOD cortext * 60)
            \<longrightarrow> admitted d \<and> rts' = rts(hotkey \<mapsto> [current_time]))
       \<and> (sorted (window_of rts hotkey)
            \<longrightarrow> dq = filter (\<lambda>t. \<not> current_time - t > MIN_REQUEST_PERIOD cortext * 60)
                       (window_of rts hotkey))"
proof -
  have srt: "sorted (window_of rts hotkey)
            \<longrightarrow> dq = filter (\<lambda>t. \<not> current_time - t > MIN_REQUEST_PERIOD cortext * 60)
                       (window_of rts hotkey)"
    unfolding dq using prune_sorted_filter by blast
  show ?thesis
  proof (cases "passes_stake_gate cortext mg hotkey blacklist_amt")
    case True
    note step = rate_step [OF True hk, of current_time rts, unfolded res Let_def, folded dq]
    have old: "(\<forall>t \<in> set (window_of rts hotkey).
                   current_time - t > MIN_REQUEST_PERIOD cortext * 60) \<longrightarrow> dq = []"
      unfolding dq using prune_all_old by blast
    show ?thesis
    proof (cases "int (length dq) \<ge> MAX_REQUESTS cortext")
      case True
      with step old srt show ?thesis by (auto simp: admitted_def)
    next
      case False
      with step old srt show ?thesis by (auto simp: admitted_def)
    qed
  next
    case False
    from gate_fails [OF False hk res] False srt show ?thesis by simp
  qed
qed

theorem rate_window_admission_witness:
  "dendrite (demo_header ''hk1'') = Some ''hk1''
   \<and> passes_stake_gate (demo_consts False 2) demo_metagraph ''hk1'' 20000
   \<and> base_blacklist (demo_consts False 2) demo_metagraph 1000 [''hk1'' \<mapsto> [900, 990, 995]]
        (demo_header ''hk1'') 20000
      = (Some (True, Request_frequency_exceeded ''hk1'' 2 1 2), [''hk1'' \<mapsto> [990, 995]], [])
   \<and> base_blacklist (demo_consts False 2) demo_metagraph 2000 [''hk1'' \<mapsto> [990, 995]]
        (demo_header ''hk1'') 20000
      = (Some (False, Accepting_request ''StreamPrompting'' ''hk1''), [''hk1'' \<mapsto> [2000]], [])"
proof -
  have hk: "dendrite (demo_header ''hk1'') = Some ''hk1''" by (simp add: demo_header_def)
  have gate: "passes_stake_gate (demo_consts False 2) demo_metagraph ''hk1'' 20000"
    by (simp add: passes_stake_gate_def demo_consts_def demo_metagraph_def py_get_def)
  have r1: "base_blacklist (demo_consts False 2) demo_metagraph 1000
              [''hk1'' \<mapsto> [900, 990, 995]] (demo_header ''hk1'') 20000
      = (Some (True, Request_frequency_exceeded ''hk1'' 2 1 2), [''hk1'' \<mapsto> [990, 995]], [])"
    by (simp add: base_blacklist_def base_blacklist_body_def demo_consts_def
        demo_metagraph_def demo_header_def py_get_def Let_def)
  have r2: "base_blacklist (demo_consts False 2) demo_metagraph 2000 [''hk1'' \<mapsto> [990, 995]]
        (demo_header ''hk1'') 20000
      = (Some (False, Accepting_request ''StreamPrompting'' ''hk1''), [''hk1'' \<mapsto> [2000]], [])"
    by (simp add: base_blacklist_def base_blacklist_body_def demo_consts_def
        demo_metagraph_def demo_header_def py_get_def Let_def)
  from rate_window_admission [OF hk r1 refl] rate_window_admission [OF hk r2 refl] hk gate r1 r2
  show ?thesis by simp
qed

text \<open>
  Claim C6. An error raised while admission is evaluated should be caught and logged and
  turned into a reject decision, with no exception reaching the caller. Two requests on
  which the \<open>try\<close> block raises: with unregistered callers allowed, the hotkey \<open>hk9\<close> is
  in no axon and not in \<open>metagraph.hotkeys\<close>, so the stake lookup raises \<open>ValueError\<close>;
  and a synapse without dendrite information, on which reading the hotkey raises
  \<open>AttributeError\<close>. In both the handler logs the error and \<open>base_blacklist\<close> returns
  \<open>None\<close>, not a decision; \<open>blacklist_prompt\<close> then raises \<open>TypeError\<close> on subscripting it.
\<close>

theorem blacklist_error_returns_none:
  "base_blacklist (demo_consts True 2) demo_metagraph 1000 Map.empty (demo_header ''hk9'') 20000
     = (None, Map.empty, [Error_in_blacklist ValueError])
   \<and> fst (blacklist_prompt (demo_consts True 2) demo_metagraph 1000 Map.empty
            (demo_header ''hk9''))
     = Inl TypeError
   \<and> base_blacklist (demo_consts False 2) demo_metagraph 1000 Map.empty
        \<lparr>dendrite = None, synapse_type = ''StreamPrompting''\<rparr> 20000
     = (None, Map.empty, [Error_in_blacklist AttributeError])
   \<and> fst (blacklist_prompt (demo_consts False 2) demo_metagraph 1000 Map.empty
            \<lparr>dendrite = None, synapse_type = ''StreamPrompting''\<rparr>)
     = Inl TypeError"
  by (simp add: base_blacklist_def blacklist_prompt_def base_blacklist_body_def demo_consts_def
        demo_metagraph_def demo_header_def Let_def)

text \<open>
  The same for every error: whenever the \<open>try\<close> block raises, \<open>base_blacklist\<close> returns
  \<open>None\<close> and leaves the recorded timestamps as they were.
\<close>

lemma blacklist_raise_returns_none:
  "fst (base_blacklist_body cortext mg now rts synapse amt) = Inl e \<Longrightarrow>
   base_blacklist cortext mg now rts synapse amt = (None, rts, [Error_in_blacklist e])"
  by (auto simp: base_blacklist_def base_blacklist_body_def Let_def
           split: prod.splits sum.splits option.splits if_splits)

end
